theory Spec2Isabelle
  imports Complex_Main
begin

section \<open>The inertia game: data model\<close>

text \<open>
  The development embeds the state and the pure state transformers of
  \<^verbatim>\<open>src/components/InertiaGame.tsx\<close>. A JavaScript \<^verbatim>\<open>number\<close> is
  modelled as an exact \<^typ>\<open>real\<close>: the rounding of IEEE doubles, NaN and the
  infinities are outside the model, so every equation below is one of exact
  arithmetic. The properties of the physics are therefore stated for one
  step, in the expressions of the code itself; a value after several steps
  is stated only where every intermediate value is exact in binary floating
  point too (the launch scenario). The fields of \<^verbatim>\<open>GameObject\<close> carry the prefix \<open>obj_\<close>, because the
  source's own names \<^verbatim>\<open>x\<close>, \<^verbatim>\<open>y\<close>, \<^verbatim>\<open>id\<close> and \<^verbatim>\<open>size\<close> would capture variables and
  constants of HOL; the trail points \<^verbatim>\<open>{ x, y }\<close> are records with fields
  \<open>pt_x\<close> and \<open>pt_y\<close>.
\<close>

record point =
  pt_x :: real
  pt_y :: real

record GameObject =
  obj_id :: string
  obj_x :: real
  obj_y :: real
  obj_vx :: real
  obj_vy :: real
  obj_mass :: real
  obj_color :: string
  obj_trail :: "point list"
  obj_size :: real

record GameState =
  objects :: "GameObject list"
  friction :: real
  gravity :: bool
  isLaunching :: bool
  launchStart :: "point option"
  currentMouse :: "point option"
  level :: nat
  score :: real
  isPlaying :: bool

text \<open>
  What the code reads from the canvas element: its drawing-surface size and
  the left and top of its bounding client rectangle. \<^verbatim>\<open>canvasRef.current\<close> is
  a \<open>canvas option\<close>, \<open>None\<close> while the element is not mounted.
\<close>

record canvas =
  width :: real
  height :: real
  rect_left :: real
  rect_top :: real

record LevelPreset =
  lv_name :: string
  lv_description :: string
  lv_friction :: real
  lv_gravity :: bool
  lv_target :: string

definition LEVELS :: "LevelPreset list" where
  "LEVELS =
    [\<lparr>lv_name = ''Frictionless Space'',
      lv_description = ''Launch objects in space with no friction. Notice how they keep moving!'',
      lv_friction = 0, lv_gravity = False,
      lv_target = ''Launch an object and observe continuous motion''\<rparr>,
     \<lparr>lv_name = ''Air Resistance'',
      lv_description = ''Add friction to see how external forces slow down objects'',
      lv_friction = 0.02, lv_gravity = False,
      lv_target = ''Compare motion with and without friction''\<rparr>,
     \<lparr>lv_name = ''Gravity Field'',
      lv_description = ''Add gravity to see how forces change object motion'',
      lv_friction = 0.01, lv_gravity = True,
      lv_target = ''Launch objects and watch gravity affect their path''\<rparr>,
     \<lparr>lv_name = ''Real World'',
      lv_description = ''Full physics with friction and gravity like on Earth'',
      lv_friction = 0.03, lv_gravity = True,
      lv_target = ''Master inertia in realistic conditions''\<rparr>]"

definition initialState :: GameState where
  "initialState =
    \<lparr>objects = [],
     friction = lv_friction (LEVELS ! 0),
     gravity = lv_gravity (LEVELS ! 0),
     isLaunching = False,
     launchStart = None,
     currentMouse = None,
     level = 0,
     score = 0,
     isPlaying = False\<rparr>"

section \<open>Creating an object\<close>

text \<open>
  \<^verbatim>\<open>createObject\<close> draws an id and a palette index from \<^verbatim>\<open>Math.random()\<close>. The
  two draws are parameters here: \<open>rid\<close> is the generated id and \<open>ci\<close> is
  \<^verbatim>\<open>Math.floor(Math.random() * colors.length)\<close>, a number below 6.
\<close>

definition colors :: "string list" where
  "colors = [''#ff6b6b'', ''#4ecdc4'', ''#45b7d1'', ''#96ceb4'', ''#ffeaa7'', ''#dda0dd'']"

definition createObject :: "string \<Rightarrow> nat \<Rightarrow> real \<Rightarrow> real \<Rightarrow> real \<Rightarrow> real \<Rightarrow> GameObject" where
  "createObject rid ci x y vx vy =
    \<lparr>obj_id = rid,
     obj_x = x,
     obj_y = y,
     obj_vx = vx,
     obj_vy = vy,
     obj_mass = 1,
     obj_color = colors ! ci,
     obj_trail = [],
     obj_size = 20\<rparr>"

section \<open>The physics step\<close>

text \<open>\<^verbatim>\<open>xs.slice(-n)\<close>: the last \<open>n\<close> elements, the whole list when it is shorter.\<close>

definition slice_last :: "nat \<Rightarrow> 'a list \<Rightarrow> 'a list" where
  "slice_last n xs = drop (length xs - n) xs"

text \<open>
  The callback that \<^verbatim>\<open>updatePhysics\<close> maps over the objects is one block of
  five commented phases. Each phase is a function here, named after its
  comment, and \<open>updateObject\<close> runs them in the order of the source.
\<close>

definition applyGravity :: "bool \<Rightarrow> GameObject \<Rightarrow> GameObject" where
  "applyGravity gr newObj =
    (if gr then newObj\<lparr>obj_vy := obj_vy newObj + 0.3\<rparr> else newObj)"

definition applyFriction :: "real \<Rightarrow> GameObject \<Rightarrow> GameObject" where
  "applyFriction fr newObj =
    (if fr > 0
     then newObj\<lparr>obj_vx := obj_vx newObj * (1 - fr),
                 obj_vy := obj_vy newObj * (1 - fr)\<rparr>
     else newObj)"

definition updatePosition :: "GameObject \<Rightarrow> GameObject" where
  "updatePosition newObj =
    newObj\<lparr>obj_x := obj_x newObj + obj_vx newObj,
            obj_y := obj_y newObj + obj_vy newObj\<rparr>"

definition addToTrail :: "GameObject \<Rightarrow> GameObject" where
  "addToTrail newObj =
    (let t = obj_trail newObj @ [\<lparr>pt_x = obj_x newObj, pt_y = obj_y newObj\<rparr>]
     in newObj\<lparr>obj_trail := (if length t > 50 then slice_last 50 t else t)\<rparr>)"

definition bounceOffWalls :: "canvas option \<Rightarrow> GameObject \<Rightarrow> GameObject" where
  "bounceOffWalls canvasRef newObj =
    (case canvasRef of
       None \<Rightarrow> newObj
     | Some cv \<Rightarrow>
         (let o1 =
            (if obj_x newObj \<le> obj_size newObj \<or> obj_x newObj \<ge> width cv - obj_size newObj
             then newObj\<lparr>obj_vx := obj_vx newObj * (- 0.8),
                         obj_x := max (obj_size newObj) (min (width cv - obj_size newObj) (obj_x newObj))\<rparr>
             else newObj)
          in
            (if obj_y o1 \<le> obj_size o1 \<or> obj_y o1 \<ge> height cv - obj_size o1
             then o1\<lparr>obj_vy := obj_vy o1 * (- 0.8),
                     obj_y := max (obj_size o1) (min (height cv - obj_size o1) (obj_y o1))\<rparr>
             else o1)))"

definition updateObject :: "canvas option \<Rightarrow> real \<Rightarrow> bool \<Rightarrow> GameObject \<Rightarrow> GameObject" where
  "updateObject canvasRef fr gr obj =
    bounceOffWalls canvasRef
      (addToTrail (updatePosition (applyFriction fr (applyGravity gr obj))))"

definition updatePhysics :: "canvas option \<Rightarrow> GameState \<Rightarrow> GameState" where
  "updatePhysics canvasRef prevState =
    prevState\<lparr>objects :=
      map (updateObject canvasRef (friction prevState) (gravity prevState)) (objects prevState)\<rparr>"

section \<open>Pointer handlers, reset and level change\<close>

text \<open>
  A handler reads \<^verbatim>\<open>gameState\<close> from its closure and updates \<^verbatim>\<open>prev\<close>; the
  component is rendered again after every state change, so both are the
  state the handler is applied to.
\<close>

definition handleCanvasMouseDown :: "canvas option \<Rightarrow> real \<Rightarrow> real \<Rightarrow> GameState \<Rightarrow> GameState" where
  "handleCanvasMouseDown canvasRef clientX clientY prev =
    (case canvasRef of
       None \<Rightarrow> prev
     | Some cv \<Rightarrow>
         (let x = clientX - rect_left cv; y = clientY - rect_top cv
          in prev\<lparr>isLaunching := True,
                  launchStart := Some \<lparr>pt_x = x, pt_y = y\<rparr>,
                  currentMouse := Some \<lparr>pt_x = x, pt_y = y\<rparr>,
                  isPlaying := True\<rparr>))"

definition handleCanvasMouseMove :: "canvas option \<Rightarrow> real \<Rightarrow> real \<Rightarrow> GameState \<Rightarrow> GameState" where
  "handleCanvasMouseMove canvasRef clientX clientY prev =
    (if \<not> isLaunching prev then prev
     else case canvasRef of
       None \<Rightarrow> prev
     | Some cv \<Rightarrow>
         (let x = clientX - rect_left cv; y = clientY - rect_top cv
          in prev\<lparr>currentMouse := Some \<lparr>pt_x = x, pt_y = y\<rparr>\<rparr>))"

definition handleCanvasMouseUp :: "string \<Rightarrow> nat \<Rightarrow> GameState \<Rightarrow> GameState" where
  "handleCanvasMouseUp rid ci prev =
    (if \<not> isLaunching prev \<or> launchStart prev = None \<or> currentMouse prev = None then prev
     else case (launchStart prev, currentMouse prev) of
       (Some start, Some mouse) \<Rightarrow>
         (let vx = (pt_x mouse - pt_x start) * 0.2;
              vy = (pt_y mouse - pt_y start) * 0.2;
              newObject = createObject rid ci (pt_x start) (pt_y start) vx vy
          in prev\<lparr>objects := objects prev @ [newObject],
                  isLaunching := False,
                  launchStart := None,
                  currentMouse := None,
                  score := score prev + \<bar>vx\<bar> + \<bar>vy\<bar>\<rparr>)
     | _ \<Rightarrow> prev)"

definition resetGame :: "GameState \<Rightarrow> GameState" where
  "resetGame prev =
    prev\<lparr>objects := [],
         isLaunching := False,
         launchStart := None,
         currentMouse := None\<rparr>"

definition nextLevel :: "GameState \<Rightarrow> GameState" where
  "nextLevel prev =
    (let newLevel = min (level prev + 1) (length LEVELS - 1)
     in prev\<lparr>level := newLevel,
             friction := lv_friction (LEVELS ! newLevel),
             gravity := lv_gravity (LEVELS ! newLevel),
             objects := []\<rparr>)"

text \<open>The slider and the checkbox of the control panel, and one run of \<^verbatim>\<open>animate\<close>.\<close>

definition setFriction :: "real \<Rightarrow> GameState \<Rightarrow> GameState" where
  "setFriction v prev = prev\<lparr>friction := v\<rparr>"

definition setGravity :: "bool \<Rightarrow> GameState \<Rightarrow> GameState" where
  "setGravity b prev = prev\<lparr>gravity := b\<rparr>"

definition animate :: "canvas option \<Rightarrow> GameState \<Rightarrow> GameState" where
  "animate canvasRef s = (if isPlaying s then updatePhysics canvasRef s else s)"

text \<open>
  The states the component can be in: the initial state, followed by any
  sequence of frames and user actions. The friction slider only yields
  values from 0 to 0.1, and the canvas may differ from one event to the next
  (mounting, resizing).
\<close>

inductive reachable :: "GameState \<Rightarrow> bool" where
  r_init: "reachable initialState"
| r_frame: "reachable s \<Longrightarrow> reachable (animate canvasRef s)"
| r_down: "reachable s \<Longrightarrow> reachable (handleCanvasMouseDown canvasRef clientX clientY s)"
| r_move: "reachable s \<Longrightarrow> reachable (handleCanvasMouseMove canvasRef clientX clientY s)"
| r_up: "reachable s \<Longrightarrow> ci < length colors \<Longrightarrow> reachable (handleCanvasMouseUp rid ci s)"
| r_reset: "reachable s \<Longrightarrow> reachable (resetGame s)"
| r_next: "reachable s \<Longrightarrow> reachable (nextLevel s)"
| r_friction: "reachable s \<Longrightarrow> 0 \<le> v \<Longrightarrow> v \<le> 0.1 \<Longrightarrow> reachable (setFriction v s)"
| r_gravity: "reachable s \<Longrightarrow> reachable (setGravity b s)"

code_pred reachable .

section \<open>Notions the properties are stated with\<close>

text \<open>
  \<open>moved\<close> is the object after the gravity, friction and position phases,
  before its position is recorded and before the walls are looked at; its
  velocity is the pre-collision velocity. \<open>wallContactX\<close> and \<open>wallContactY\<close>
  are the two conditions of the bounce phase, \<open>in_bounds\<close> is the range
  from radius to dimension minus radius on both axes, \<open>steps\<close> iterates the
  step under fixed parameters and \<open>freeFlight\<close> says that none of the next
  \<open>n\<close> steps meets a wall.
\<close>

definition moved :: "real \<Rightarrow> bool \<Rightarrow> GameObject \<Rightarrow> GameObject" where
  "moved fr gr obj = updatePosition (applyFriction fr (applyGravity gr obj))"

definition wallContactX :: "canvas \<Rightarrow> GameObject \<Rightarrow> bool" where
  "wallContactX cv obj = (obj_x obj \<le> obj_size obj \<or> obj_x obj \<ge> width cv - obj_size obj)"

definition wallContactY :: "canvas \<Rightarrow> GameObject \<Rightarrow> bool" where
  "wallContactY cv obj = (obj_y obj \<le> obj_size obj \<or> obj_y obj \<ge> height cv - obj_size obj)"

definition wallContact :: "canvas option \<Rightarrow> GameObject \<Rightarrow> bool" where
  "wallContact canvasRef obj =
    (case canvasRef of None \<Rightarrow> False | Some cv \<Rightarrow> wallContactX cv obj \<or> wallContactY cv obj)"

definition in_bounds :: "canvas \<Rightarrow> GameObject \<Rightarrow> bool" where
  "in_bounds cv obj =
    (obj_size obj \<le> obj_x obj \<and> obj_x obj \<le> width cv - obj_size obj \<and>
     obj_size obj \<le> obj_y obj \<and> obj_y obj \<le> height cv - obj_size obj)"

fun steps :: "canvas option \<Rightarrow> real \<Rightarrow> bool \<Rightarrow> nat \<Rightarrow> GameObject \<Rightarrow> GameObject" where
  "steps canvasRef fr gr 0 obj = obj"
| "steps canvasRef fr gr (Suc n) obj = steps canvasRef fr gr n (updateObject canvasRef fr gr obj)"

fun freeFlight :: "canvas option \<Rightarrow> real \<Rightarrow> bool \<Rightarrow> nat \<Rightarrow> GameObject \<Rightarrow> bool" where
  "freeFlight canvasRef fr gr 0 obj = True"
| "freeFlight canvasRef fr gr (Suc n) obj =
    (\<not> wallContact canvasRef (moved fr gr obj) \<and>
     freeFlight canvasRef fr gr n (updateObject canvasRef fr gr obj))"

text \<open>A canvas of the largest size the component gives it, at the origin of the viewport.\<close>

definition demoCanvas :: canvas where
  "demoCanvas = \<lparr>width = 800, height = 600, rect_left = 0, rect_top = 0\<rparr>"

text \<open>
  A run of steps whose canvas, friction and gravity may change from one step
  to the next (resizing, the slider, the checkbox), and the positions such a
  run records: at each step, the position reached by integration.
\<close>

type_synonym env = "canvas option \<times> real \<times> bool"

fun run :: "env list \<Rightarrow> GameObject \<Rightarrow> GameObject" where
  "run [] obj = obj"
| "run ((canvasRef, fr, gr) # es) obj = run es (updateObject canvasRef fr gr obj)"

fun samples :: "env list \<Rightarrow> GameObject \<Rightarrow> point list" where
  "samples [] obj = []"
| "samples ((canvasRef, fr, gr) # es) obj =
    \<lparr>pt_x = obj_x (moved fr gr obj), pt_y = obj_y (moved fr gr obj)\<rparr>
      # samples es (updateObject canvasRef fr gr obj)"

section \<open>Field-wise description of the phases\<close>

lemma applyGravity_fields:
  "obj_id (applyGravity g r) = obj_id r"
  "obj_x (applyGravity g r) = obj_x r"
  "obj_y (applyGravity g r) = obj_y r"
  "obj_vx (applyGravity g r) = obj_vx r"
  "obj_vy (applyGravity g r) = (if g then obj_vy r + 0.3 else obj_vy r)"
  "obj_mass (applyGravity g r) = obj_mass r"
  "obj_color (applyGravity g r) = obj_color r"
  "obj_trail (applyGravity g r) = obj_trail r"
  "obj_size (applyGravity g r) = obj_size r"
  by (simp_all add: applyGravity_def)

lemma applyFriction_fields:
  "obj_id (applyFriction f r) = obj_id r"
  "obj_x (applyFriction f r) = obj_x r"
  "obj_y (applyFriction f r) = obj_y r"
  "obj_vx (applyFriction f r) = (if f > 0 then obj_vx r * (1 - f) else obj_vx r)"
  "obj_vy (applyFriction f r) = (if f > 0 then obj_vy r * (1 - f) else obj_vy r)"
  "obj_mass (applyFriction f r) = obj_mass r"
  "obj_color (applyFriction f r) = obj_color r"
  "obj_trail (applyFriction f r) = obj_trail r"
  "obj_size (applyFriction f r) = obj_size r"
  by (simp_all add: applyFriction_def)

lemma updatePosition_fields:
  "obj_id (updatePosition r) = obj_id r"
  "obj_x (updatePosition r) = obj_x r + obj_vx r"
  "obj_y (updatePosition r) = obj_y r + obj_vy r"
  "obj_vx (updatePosition r) = obj_vx r"
  "obj_vy (updatePosition r) = obj_vy r"
  "obj_mass (updatePosition r) = obj_mass r"
  "obj_color (updatePosition r) = obj_color r"
  "obj_trail (updatePosition r) = obj_trail r"
  "obj_size (updatePosition r) = obj_size r"
  by (simp_all add: updatePosition_def)

lemma addToTrail_fields:
  "obj_id (addToTrail r) = obj_id r"
  "obj_x (addToTrail r) = obj_x r"
  "obj_y (addToTrail r) = obj_y r"
  "obj_vx (addToTrail r) = obj_vx r"
  "obj_vy (addToTrail r) = obj_vy r"
  "obj_mass (addToTrail r) = obj_mass r"
  "obj_color (addToTrail r) = obj_color r"
  "obj_size (addToTrail r) = obj_size r"
  by (simp_all add: addToTrail_def Let_def)

lemma addToTrail_trail:
  "obj_trail (addToTrail r) =
    (if length (obj_trail r) \<ge> 50
     then slice_last 50 (obj_trail r @ [\<lparr>pt_x = obj_x r, pt_y = obj_y r\<rparr>])
     else obj_trail r @ [\<lparr>pt_x = obj_x r, pt_y = obj_y r\<rparr>])"
  by (simp add: addToTrail_def Let_def)

lemma bounceOffWalls_None: "bounceOffWalls None r = r"
  by (simp add: bounceOffWalls_def)

lemma bounceOffWalls_keeps:
  "obj_id (bounceOffWalls c r) = obj_id r"
  "obj_mass (bounceOffWalls c r) = obj_mass r"
  "obj_color (bounceOffWalls c r) = obj_color r"
  "obj_trail (bounceOffWalls c r) = obj_trail r"
  "obj_size (bounceOffWalls c r) = obj_size r"
  by (cases c; simp add: bounceOffWalls_def Let_def)+

lemma bounceOffWalls_x:
  "obj_x (bounceOffWalls (Some cv) r) =
    (if wallContactX cv r then max (obj_size r) (min (width cv - obj_size r) (obj_x r)) else obj_x r)"
  "obj_vx (bounceOffWalls (Some cv) r) =
    (if wallContactX cv r then obj_vx r * (- 0.8) else obj_vx r)"
  by (simp_all add: bounceOffWalls_def Let_def wallContactX_def)

lemma bounceOffWalls_y:
  "obj_y (bounceOffWalls (Some cv) r) =
    (if wallContactY cv r then max (obj_size r) (min (height cv - obj_size r) (obj_y r)) else obj_y r)"
  "obj_vy (bounceOffWalls (Some cv) r) =
    (if wallContactY cv r then obj_vy r * (- 0.8) else obj_vy r)"
  by (simp_all add: bounceOffWalls_def Let_def wallContactY_def)


lemma moved_fields:
  "obj_vx (moved f g r) = (if f > 0 then obj_vx r * (1 - f) else obj_vx r)"
  "obj_vy (moved f g r) =
     (if f > 0 then (if g then obj_vy r + 0.3 else obj_vy r) * (1 - f)
      else (if g then obj_vy r + 0.3 else obj_vy r))"
  "obj_x (moved f g r) = obj_x r + (if f > 0 then obj_vx r * (1 - f) else obj_vx r)"
  "obj_y (moved f g r) = obj_y r +
     (if f > 0 then (if g then obj_vy r + 0.3 else obj_vy r) * (1 - f)
      else (if g then obj_vy r + 0.3 else obj_vy r))"
  "obj_size (moved f g r) = obj_size r"
  "obj_trail (moved f g r) = obj_trail r"
  "obj_mass (moved f g r) = obj_mass r"
  "obj_id (moved f g r) = obj_id r"
  "obj_color (moved f g r) = obj_color r"
  by (simp_all add: moved_def updatePosition_fields applyFriction_fields applyGravity_fields)

lemma updateObject_moved:
  "updateObject c f g r = bounceOffWalls c (addToTrail (moved f g r))"
  by (simp add: updateObject_def moved_def)

lemma updateObject_keeps:
  "obj_id (updateObject c f g r) = obj_id r"
  "obj_mass (updateObject c f g r) = obj_mass r"
  "obj_color (updateObject c f g r) = obj_color r"
  "obj_size (updateObject c f g r) = obj_size r"
  by (simp_all add: updateObject_moved bounceOffWalls_keeps addToTrail_fields moved_fields)

lemma updateObject_trail:
  "obj_trail (updateObject c f g r) =
    (if length (obj_trail r) \<ge> 50
     then slice_last 50 (obj_trail r @ [\<lparr>pt_x = obj_x (moved f g r), pt_y = obj_y (moved f g r)\<rparr>])
     else obj_trail r @ [\<lparr>pt_x = obj_x (moved f g r), pt_y = obj_y (moved f g r)\<rparr>])"
  by (simp add: updateObject_moved bounceOffWalls_keeps addToTrail_trail
      addToTrail_fields moved_fields(5-9))

lemma wallContactX_addToTrail: "wallContactX cv (addToTrail r) = wallContactX cv r"
  by (simp add: wallContactX_def addToTrail_fields)

lemma wallContactY_addToTrail: "wallContactY cv (addToTrail r) = wallContactY cv r"
  by (simp add: wallContactY_def addToTrail_fields)

lemma updateObject_None:
  "obj_x (updateObject None f g r) = obj_x (moved f g r)"
  "obj_y (updateObject None f g r) = obj_y (moved f g r)"
  "obj_vx (updateObject None f g r) = obj_vx (moved f g r)"
  "obj_vy (updateObject None f g r) = obj_vy (moved f g r)"
  by (simp_all add: updateObject_moved bounceOffWalls_None addToTrail_fields)

lemma updateObject_Some_x:
  "obj_x (updateObject (Some cv) f g r) =
    (if wallContactX cv (moved f g r)
     then max (obj_size r) (min (width cv - obj_size r) (obj_x (moved f g r)))
     else obj_x (moved f g r))"
  "obj_vx (updateObject (Some cv) f g r) =
    (if wallContactX cv (moved f g r) then obj_vx (moved f g r) * (- 0.8) else obj_vx (moved f g r))"
  by (simp_all add: updateObject_moved bounceOffWalls_x wallContactX_addToTrail
      addToTrail_fields moved_fields(5))

lemma updateObject_Some_y:
  "obj_y (updateObject (Some cv) f g r) =
    (if wallContactY cv (moved f g r)
     then max (obj_size r) (min (height cv - obj_size r) (obj_y (moved f g r)))
     else obj_y (moved f g r))"
  "obj_vy (updateObject (Some cv) f g r) =
    (if wallContactY cv (moved f g r) then obj_vy (moved f g r) * (- 0.8) else obj_vy (moved f g r))"
  by (simp_all add: updateObject_moved bounceOffWalls_y wallContactY_addToTrail
      addToTrail_fields moved_fields(5))

lemma updateObject_free:
  assumes "\<not> wallContact c (moved f g r)"
  shows "obj_x (updateObject c f g r) = obj_x (moved f g r)"
    and "obj_y (updateObject c f g r) = obj_y (moved f g r)"
    and "obj_vx (updateObject c f g r) = obj_vx (moved f g r)"
    and "obj_vy (updateObject c f g r) = obj_vy (moved f g r)"
  using assms
  by (cases c; simp add: wallContact_def updateObject_None updateObject_Some_x updateObject_Some_y)+

lemma slice_last_length: "length (slice_last n xs) = min n (length xs)"
  by (simp add: slice_last_def)

lemma slice_last_last: "0 < n \<Longrightarrow> xs \<noteq> [] \<Longrightarrow> last (slice_last n xs) = last xs"
  by (simp add: slice_last_def)

lemma wallContact_mass:
  "wallContactX cv (moved f g (r\<lparr>obj_mass := m\<rparr>)) = wallContactX cv (moved f g r)"
  "wallContactY cv (moved f g (r\<lparr>obj_mass := m\<rparr>)) = wallContactY cv (moved f g r)"
  by (simp_all add: wallContactX_def wallContactY_def moved_fields)

lemma updateObject_mass:
  "updateObject c f g (r\<lparr>obj_mass := m\<rparr>) = (updateObject c f g r)\<lparr>obj_mass := m\<rparr>"
proof (cases c)
  case None
  show ?thesis unfolding None
    by (rule GameObject.equality)
      (simp_all add: updateObject_keeps updateObject_trail updateObject_None moved_fields)
next
  case (Some cv)
  show ?thesis unfolding Some
    by (rule GameObject.equality)
      (simp_all add: updateObject_keeps updateObject_trail updateObject_Some_x
        updateObject_Some_y wallContact_mass moved_fields)
qed


lemma updateObject_in_bounds:
  assumes "2 * obj_size r \<le> width cv" and "2 * obj_size r \<le> height cv"
  shows "in_bounds cv (updateObject (Some cv) f g r)"
  using assms
  by (simp add: in_bounds_def updateObject_keeps updateObject_Some_x updateObject_Some_y
      wallContactX_def wallContactY_def moved_fields(5))

lemma createObject_fields:
  "obj_id (createObject rid ci x y vx vy) = rid"
  "obj_x (createObject rid ci x y vx vy) = x"
  "obj_y (createObject rid ci x y vx vy) = y"
  "obj_vx (createObject rid ci x y vx vy) = vx"
  "obj_vy (createObject rid ci x y vx vy) = vy"
  "obj_mass (createObject rid ci x y vx vy) = 1"
  "obj_color (createObject rid ci x y vx vy) = colors ! ci"
  "obj_trail (createObject rid ci x y vx vy) = []"
  "obj_size (createObject rid ci x y vx vy) = 20"
  by (simp_all add: createObject_def)

lemma handleCanvasMouseUp_objects:
  "objects (handleCanvasMouseUp rid ci s) = objects s \<or>
   (\<exists>x y vx vy. objects (handleCanvasMouseUp rid ci s) = objects s @ [createObject rid ci x y vx vy])"
  by (auto simp: handleCanvasMouseUp_def Let_def split: option.splits)

lemma handler_objects:
  "objects (handleCanvasMouseDown c x y s) = objects s"
  "objects (handleCanvasMouseMove c x y s) = objects s"
  "objects (resetGame s) = []"
  "objects (nextLevel s) = []"
  "objects (setFriction v s) = objects s"
  "objects (setGravity b s) = objects s"
  by (simp_all add: handleCanvasMouseDown_def handleCanvasMouseMove_def resetGame_def
      nextLevel_def setFriction_def setGravity_def Let_def split: option.split)

lemma animate_objects:
  "objects (animate c s) = objects s \<or>
   objects (animate c s) = map (updateObject c (friction s) (gravity s)) (objects s)"
  by (simp add: animate_def updatePhysics_def)

lemma reachable_size:
  "reachable s \<Longrightarrow> \<forall>obj \<in> set (objects s). obj_size obj = 20"
proof (induction rule: reachable.induct)
  case r_init
  show ?case by (simp add: initialState_def)
next
  case (r_frame s canvasRef)
  with animate_objects [of canvasRef s] show ?case
    by (auto simp: updateObject_keeps)
next
  case (r_up s ci rid)
  with handleCanvasMouseUp_objects [of rid ci s] show ?case
    by (auto simp: createObject_fields)
qed (simp_all add: handler_objects)

section \<open>Flight between the walls\<close>

lemma flight_inertial:
  "f \<le> 0 \<Longrightarrow> freeFlight c f False n obj \<Longrightarrow>
     obj_vx (steps c f False n obj) = obj_vx obj \<and>
     obj_vy (steps c f False n obj) = obj_vy obj \<and>
     obj_x (steps c f False n obj) = obj_x obj + real n * obj_vx obj \<and>
     obj_y (steps c f False n obj) = obj_y obj + real n * obj_vy obj"
proof (induction n arbitrary: obj)
  case 0
  show ?case by simp
next
  case (Suc n)
  let ?o = "updateObject c f False obj"
  from Suc.prems have free: "\<not> wallContact c (moved f False obj)"
    and rest: "freeFlight c f False n ?o" by simp_all
  from Suc.IH [OF Suc.prems(1) rest] updateObject_free [OF free] Suc.prems(1)
  show ?case by (simp add: moved_fields algebra_simps)
qed

section \<open>The trail as a bounded queue\<close>

lemma slice_last_append:
  "slice_last n (slice_last n xs @ ys) = slice_last n (xs @ ys)"
  by (cases "length xs \<le> n") (auto simp: slice_last_def add.commute)

lemma slice_last_short: "length xs \<le> n \<Longrightarrow> slice_last n xs = xs"
  by (simp add: slice_last_def)

lemma updateObject_trail_slice:
  "length (obj_trail r) \<le> 50 \<Longrightarrow>
    obj_trail (updateObject c f g r) =
      slice_last 50 (obj_trail r @ [\<lparr>pt_x = obj_x (moved f g r), pt_y = obj_y (moved f g r)\<rparr>])"
  by (simp add: updateObject_trail slice_last_short)

lemma updateObject_trail_le: "length (obj_trail (updateObject c f g r)) \<le> 50"
  by (simp add: updateObject_trail slice_last_length)

lemma run_trail:
  "length (obj_trail obj) \<le> 50 \<Longrightarrow>
    obj_trail (run es obj) = slice_last 50 (obj_trail obj @ samples es obj)"
proof (induction es obj rule: run.induct)
  case (1 obj)
  then show ?case by (simp add: slice_last_short)
next
  case (2 canvasRef fr gr es obj)
  have "obj_trail (run es (updateObject canvasRef fr gr obj)) =
      slice_last 50 (obj_trail (updateObject canvasRef fr gr obj)
        @ samples es (updateObject canvasRef fr gr obj))"
    by (rule "2.IH") (rule updateObject_trail_le)
  with "2.prems" show ?case
    by (simp add: updateObject_trail_slice slice_last_append)
qed

lemma samples_length: "length (samples es obj) = length es"
  by (induction es obj rule: samples.induct) simp_all

lemma reachable_trail:
  "reachable s \<Longrightarrow> \<forall>obj \<in> set (objects s). length (obj_trail obj) \<le> 50"
proof (induction rule: reachable.induct)
  case r_init
  show ?case by (simp add: initialState_def)
next
  case (r_frame s canvasRef)
  with animate_objects [of canvasRef s] show ?case
    by (auto simp: updateObject_trail_le)
next
  case (r_up s ci rid)
  with handleCanvasMouseUp_objects [of rid ci s] show ?case
    by (auto simp: createObject_fields)
qed (simp_all add: handler_objects)

section \<open>Two concrete gestures\<close>

lemma reachable_demo:
  "reachable (handleCanvasMouseUp ''a'' 0
     (handleCanvasMouseDown (Some demoCanvas) 5 5 initialState))"
  by (intro reachable.intros) (simp add: colors_def)

lemma demo_objects:
  "objects (handleCanvasMouseUp ''a'' 0
     (handleCanvasMouseDown (Some demoCanvas) 5 5 initialState)) =
   [createObject ''a'' 0 5 5 0 0]"
  by (simp add: handleCanvasMouseUp_def handleCanvasMouseDown_def initialState_def
      demoCanvas_def Let_def)

lemma demo_params:
  "friction (handleCanvasMouseUp ''a'' 0
     (handleCanvasMouseDown (Some demoCanvas) 5 5 initialState)) = 0"
  "gravity (handleCanvasMouseUp ''a'' 0
     (handleCanvasMouseDown (Some demoCanvas) 5 5 initialState)) = False"
  by (simp_all add: handleCanvasMouseUp_def handleCanvasMouseDown_def initialState_def
      demoCanvas_def LEVELS_def Let_def)

lemma gesture_demo:
  "isLaunching (handleCanvasMouseMove (Some demoCanvas) 500 300
      (handleCanvasMouseDown (Some demoCanvas) 400 300 initialState))"
  "launchStart (handleCanvasMouseMove (Some demoCanvas) 500 300
      (handleCanvasMouseDown (Some demoCanvas) 400 300 initialState)) =
    Some \<lparr>pt_x = 400, pt_y = 300\<rparr>"
  "currentMouse (handleCanvasMouseMove (Some demoCanvas) 500 300
      (handleCanvasMouseDown (Some demoCanvas) 400 300 initialState)) =
    Some \<lparr>pt_x = 500, pt_y = 300\<rparr>"
  "objects (handleCanvasMouseMove (Some demoCanvas) 500 300
      (handleCanvasMouseDown (Some demoCanvas) 400 300 initialState)) = []"
  "score (handleCanvasMouseMove (Some demoCanvas) 500 300
      (handleCanvasMouseDown (Some demoCanvas) 400 300 initialState)) = 0"
  by (simp_all add: handleCanvasMouseMove_def handleCanvasMouseDown_def initialState_def
      demoCanvas_def Let_def)

section \<open>The properties\<close>

text \<open>
  C1. One physics step maps every object through \<open>updateObject\<close>, which
  applies, in this order: gravity (\<open>vy + 0.3\<close> when enabled, whatever the
  mass), friction (both components times \<open>1 - friction\<close> when the
  coefficient is positive, so on the gravity-updated \<open>vy\<close>), integration,
  the trail append (bounded to the last 50, its newest entry being the
  integrated position before any clamp), and the wall collision with
  clamping.
\<close>

theorem C1_physics_step_order:
  "let vy1 = (if gr then obj_vy obj + 0.3 else obj_vy obj);
       vx2 = (if fr > 0 then obj_vx obj * (1 - fr) else obj_vx obj);
       vy2 = (if fr > 0 then vy1 * (1 - fr) else vy1);
       x3 = obj_x obj + vx2;
       y3 = obj_y obj + vy2;
       t4 = obj_trail obj @ [\<lparr>pt_x = x3, pt_y = y3\<rparr>];
       r = updateObject canvasRef fr gr obj
   in objects (updatePhysics canvasRef s) =
        map (updateObject canvasRef (friction s) (gravity s)) (objects s)
    \<and> obj_trail r = (if length t4 > 50 then slice_last 50 t4 else t4)
    \<and> last (obj_trail r) = \<lparr>pt_x = x3, pt_y = y3\<rparr>
    \<and> (case canvasRef of
         None \<Rightarrow> obj_vx r = vx2 \<and> obj_vy r = vy2 \<and> obj_x r = x3 \<and> obj_y r = y3
       | Some cv \<Rightarrow>
           obj_vx r = (if x3 \<le> obj_size obj \<or> x3 \<ge> width cv - obj_size obj
                       then vx2 * (- 0.8) else vx2) \<and>
           obj_x r = (if x3 \<le> obj_size obj \<or> x3 \<ge> width cv - obj_size obj
                      then max (obj_size obj) (min (width cv - obj_size obj) x3) else x3) \<and>
           obj_vy r = (if y3 \<le> obj_size obj \<or> y3 \<ge> height cv - obj_size obj
                       then vy2 * (- 0.8) else vy2) \<and>
           obj_y r = (if y3 \<le> obj_size obj \<or> y3 \<ge> height cv - obj_size obj
                      then max (obj_size obj) (min (height cv - obj_size obj) y3) else y3))
    \<and> obj_id r = obj_id obj \<and> obj_mass r = obj_mass obj
    \<and> obj_color r = obj_color obj \<and> obj_size r = obj_size obj
    \<and> updateObject canvasRef fr gr (obj\<lparr>obj_mass := m\<rparr>) = r\<lparr>obj_mass := m\<rparr>"
  unfolding Let_def
  by (cases canvasRef)
    (simp_all add: updatePhysics_def updateObject_trail updateObject_None updateObject_Some_x
      updateObject_Some_y updateObject_keeps updateObject_mass moved_fields wallContactX_def
      wallContactY_def slice_last_last)

text \<open>
  C2, as amended. After a physics step run with the canvas mounted and at
  least one diameter wide and high, every object lies within radius and
  dimension minus radius on both axes, whatever its velocity was; for the
  reachable states, whose objects all have radius 20, a canvas of at least
  40 by 40 is enough.
\<close>

theorem C2_in_bounds_after_step:
  "(2 * obj_size obj \<le> width cv \<and> 2 * obj_size obj \<le> height cv \<longrightarrow>
      in_bounds cv (updateObject (Some cv) fr gr obj)) \<and>
   (reachable s \<and> 40 \<le> width cv \<and> 40 \<le> height cv \<longrightarrow>
      (\<forall>obj' \<in> set (objects (updatePhysics (Some cv) s)). in_bounds cv obj'))"
proof (intro conjI impI)
  assume "2 * obj_size obj \<le> width cv \<and> 2 * obj_size obj \<le> height cv"
  then show "in_bounds cv (updateObject (Some cv) fr gr obj)"
    by (simp add: updateObject_in_bounds)
next
  assume h: "reachable s \<and> 40 \<le> width cv \<and> 40 \<le> height cv"
  show "\<forall>obj' \<in> set (objects (updatePhysics (Some cv) s)). in_bounds cv obj'"
  proof
    fix obj'
    assume "obj' \<in> set (objects (updatePhysics (Some cv) s))"
    then obtain r where r: "r \<in> set (objects s)"
      and eq: "obj' = updateObject (Some cv) (friction s) (gravity s) r"
      by (auto simp: updatePhysics_def)
    from h r have "obj_size r = 20"
      using reachable_size by blast
    with h show "in_bounds cv obj'"
      unfolding eq by (intro updateObject_in_bounds) simp_all
  qed
qed

theorem C2_in_bounds_after_step_witness:
  "objects (updatePhysics (Some demoCanvas)
      (handleCanvasMouseUp ''a'' 0 (handleCanvasMouseDown (Some demoCanvas) 5 5 initialState))) =
     [updateObject (Some demoCanvas) 0 False (createObject ''a'' 0 5 5 0 0)] \<and>
   in_bounds demoCanvas (updateObject (Some demoCanvas) 0 False (createObject ''a'' 0 5 5 0 0))"
proof -
  let ?s = "handleCanvasMouseUp ''a'' 0 (handleCanvasMouseDown (Some demoCanvas) 5 5 initialState)"
  let ?obj = "createObject ''a'' 0 5 5 0 0"
  have h1: "2 * obj_size ?obj \<le> width demoCanvas \<and> 2 * obj_size ?obj \<le> height demoCanvas"
    by (simp add: createObject_fields demoCanvas_def)
  have h2: "reachable ?s \<and> 40 \<le> width demoCanvas \<and> 40 \<le> height demoCanvas"
  proof -
    have "40 \<le> width demoCanvas \<and> 40 \<le> height demoCanvas"
      by (simp add: demoCanvas_def)
    with reachable_demo show ?thesis by blast
  qed
  have objs: "objects (updatePhysics (Some demoCanvas) ?s) =
      [updateObject (Some demoCanvas) 0 False ?obj]"
    by (simp add: updatePhysics_def demo_objects demo_params)
  from C2_in_bounds_after_step [of ?obj demoCanvas 0 False ?s] h1 h2
  have "\<forall>obj' \<in> set (objects (updatePhysics (Some demoCanvas) ?s)). in_bounds demoCanvas obj'"
    by blast
  with objs show ?thesis by simp
qed

text \<open>
  C2 as stated fails between steps: pressing at (5, 5) on an 800 by 600
  canvas and releasing creates an object at (5, 5) with radius 20, in a
  reachable state, and 5 is below the radius.
\<close>

theorem C2_launch_outside_counterexample:
  "reachable (handleCanvasMouseUp ''a'' 0
      (handleCanvasMouseDown (Some demoCanvas) 5 5 initialState)) \<and>
   objects (handleCanvasMouseUp ''a'' 0
      (handleCanvasMouseDown (Some demoCanvas) 5 5 initialState)) =
     [createObject ''a'' 0 5 5 0 0] \<and>
   obj_x (createObject ''a'' 0 5 5 0 0) = 5 \<and>
   obj_size (createObject ''a'' 0 5 5 0 0) = 20 \<and>
   \<not> in_bounds demoCanvas (createObject ''a'' 0 5 5 0 0)"
  by (simp add: reachable_demo demo_objects in_bounds_def createObject_fields)

text \<open>
  C3. With the canvas mounted, each axis is handled on its own after
  integration: when the integrated position is at most the radius or at
  least the dimension minus the radius, the velocity of that axis becomes
  \<open>- 0.8\<close> times its pre-collision value and the position becomes
  \<open>max radius (min (dimension - radius) position)\<close>, which lies in the range
  whenever the canvas is at least one diameter wide; otherwise the axis is
  left as integration gave it. An object one pixel from the right wall with
  velocity (50, 0) and no friction has \<open>vx = - 40\<close> and
  \<open>x = width - radius\<close> after one step.
\<close>

theorem C3_wall_bounce:
  "let m = moved fr gr obj; r = updateObject (Some cv) fr gr obj in
    (obj_x m \<le> obj_size obj \<or> obj_x m \<ge> width cv - obj_size obj \<longrightarrow>
       obj_vx r = - 0.8 * obj_vx m \<and>
       obj_x r = max (obj_size obj) (min (width cv - obj_size obj) (obj_x m)) \<and>
       (obj_size obj \<le> width cv - obj_size obj \<longrightarrow>
          obj_size obj \<le> obj_x r \<and> obj_x r \<le> width cv - obj_size obj)) \<and>
    (\<not> (obj_x m \<le> obj_size obj \<or> obj_x m \<ge> width cv - obj_size obj) \<longrightarrow>
       obj_vx r = obj_vx m \<and> obj_x r = obj_x m) \<and>
    (obj_y m \<le> obj_size obj \<or> obj_y m \<ge> height cv - obj_size obj \<longrightarrow>
       obj_vy r = - 0.8 * obj_vy m \<and>
       obj_y r = max (obj_size obj) (min (height cv - obj_size obj) (obj_y m)) \<and>
       (obj_size obj \<le> height cv - obj_size obj \<longrightarrow>
          obj_size obj \<le> obj_y r \<and> obj_y r \<le> height cv - obj_size obj)) \<and>
    (\<not> (obj_y m \<le> obj_size obj \<or> obj_y m \<ge> height cv - obj_size obj) \<longrightarrow>
       obj_vy r = obj_vy m \<and> obj_y r = obj_y m) \<and>
    (obj_vx obj = 50 \<and> obj_vy obj = 0 \<and> obj_x obj = width cv - obj_size obj - 1 \<and>
     2 * obj_size obj \<le> width cv \<longrightarrow>
       obj_vx (updateObject (Some cv) 0 gr obj) = - 40 \<and>
       obj_x (updateObject (Some cv) 0 gr obj) = width cv - obj_size obj)"
proof -
  have x: "obj_x (moved fr gr obj) \<le> obj_size obj \<or>
        obj_x (moved fr gr obj) \<ge> width cv - obj_size obj \<longleftrightarrow> wallContactX cv (moved fr gr obj)"
    by (simp add: wallContactX_def moved_fields(5))
  have y: "obj_y (moved fr gr obj) \<le> obj_size obj \<or>
        obj_y (moved fr gr obj) \<ge> height cv - obj_size obj \<longleftrightarrow> wallContactY cv (moved fr gr obj)"
    by (simp add: wallContactY_def moved_fields(5))
  have scen: "obj_vx obj = 50 \<and> obj_vy obj = 0 \<and> obj_x obj = width cv - obj_size obj - 1 \<and>
     2 * obj_size obj \<le> width cv \<longrightarrow>
       obj_vx (updateObject (Some cv) 0 gr obj) = - 40 \<and>
       obj_x (updateObject (Some cv) 0 gr obj) = width cv - obj_size obj"
    by (simp add: updateObject_Some_x wallContactX_def moved_fields)
  show ?thesis
    unfolding Let_def x y
    using scen by (simp add: updateObject_Some_x updateObject_Some_y)
qed

theorem C3_wall_bounce_witness:
  "obj_vx (updateObject (Some demoCanvas) 0 False (createObject ''a'' 0 779 300 50 0)) = - 40 \<and>
   obj_x (updateObject (Some demoCanvas) 0 False (createObject ''a'' 0 779 300 50 0)) = 780"
  using C3_wall_bounce [of 0 False "createObject ''a'' 0 779 300 50 0" demoCanvas]
  by (simp add: Let_def createObject_fields demoCanvas_def moved_fields)

text \<open>
  C5, as amended. With gravity on and friction 0, one step replaces \<open>vy\<close> by
  \<open>vy + 0.3\<close>, a single addition of the gravity constant with no decay
  factor, when the canvas is not mounted or when the integrated \<open>y\<close> lies
  strictly between the radius and the height minus the radius; when the
  integrated \<open>y\<close> meets the top or bottom wall, the step yields
  \<open>(vy + 0.3) * - 0.8\<close> instead.
\<close>

theorem C5_gravity_step:
  "(case canvasRef of
      None \<Rightarrow> obj_vy (updateObject None 0 True obj) = obj_vy obj + 0.3
    | Some cv \<Rightarrow>
        obj_vy (updateObject (Some cv) 0 True obj) =
          (if obj_y obj + (obj_vy obj + 0.3) \<le> obj_size obj \<or>
              obj_y obj + (obj_vy obj + 0.3) \<ge> height cv - obj_size obj
           then (obj_vy obj + 0.3) * (- 0.8)
           else obj_vy obj + 0.3))"
  by (cases canvasRef)
    (simp_all add: updateObject_None updateObject_Some_y wallContactY_def moved_fields)

theorem C5_gravity_step_witness:
  "obj_vy (createObject ''a'' 0 400 300 0 0) = 0 \<and>
   obj_vy (updateObject (Some demoCanvas) 0 True (createObject ''a'' 0 400 300 0 0)) = 0.3"
  using C5_gravity_step [where canvasRef = "Some demoCanvas"
      and obj = "createObject ''a'' 0 400 300 0 0"]
  by (simp add: createObject_fields demoCanvas_def)

text \<open>
  C5 as stated fails at the floor: on an 800 by 600 canvas an object at
  \<open>y = 579\<close> with \<open>vy = 10\<close> is integrated to \<open>y = 589.3\<close>, beyond 580, and
  leaves the step with \<open>vy = - 8.24\<close> instead of 10.3.
\<close>

theorem C5_floor_bounce_counterexample:
  "obj_vy (createObject ''a'' 0 400 579 0 10) = 10 \<and>
   obj_vy (updateObject (Some demoCanvas) 0 True (createObject ''a'' 0 400 579 0 10)) = - 8.24 \<and>
   obj_vy (updateObject (Some demoCanvas) 0 True (createObject ''a'' 0 400 579 0 10)) \<noteq>
     obj_vy (createObject ''a'' 0 400 579 0 10) + 0.3"
  by (simp add: updateObject_Some_y wallContactY_def moved_fields createObject_fields
      demoCanvas_def)

text \<open>
  C6. In every reachable state every trail has at most 50 entries. An object
  made by \<open>createObject\<close> and stepped through any sequence of steps has as
  its trail the last 50 of the positions recorded so far, in the order they
  were recorded; its length is the number of steps up to 50, and exactly 50
  from the fiftieth step on. The recorded positions are the integrated ones,
  taken before the wall clamp.
\<close>

theorem C6_trail_bounded:
  "(reachable s \<longrightarrow> (\<forall>obj \<in> set (objects s). length (obj_trail obj) \<le> 50)) \<and>
   (let obj = createObject rid ci x y vx vy; r = run es obj in
      obj_trail r = slice_last 50 (samples es obj) \<and>
      length (samples es obj) = length es \<and>
      length (obj_trail r) = min (length es) 50 \<and>
      (50 \<le> length es \<longrightarrow>
         length (obj_trail r) = 50 \<and> obj_trail r = drop (length es - 50) (samples es obj)))"
proof -
  let ?obj = "createObject rid ci x y vx vy"
  have t: "obj_trail (run es ?obj) = slice_last 50 (samples es ?obj)"
    using run_trail [of ?obj es] by (simp add: createObject_fields)
  then have "length (obj_trail (run es ?obj)) = min (length es) 50"
    by (simp add: slice_last_length samples_length)
  moreover have "slice_last 50 (samples es ?obj) = drop (length es - 50) (samples es ?obj)"
    by (simp add: slice_last_def samples_length)
  ultimately show ?thesis
    unfolding Let_def using t reachable_trail [of s] by (simp add: samples_length)
qed

theorem C6_trail_bounded_witness:
  "length (obj_trail (run (replicate 51 (Some demoCanvas, 0, False))
      (createObject ''a'' 0 100 300 1 0))) = 50 \<and>
   length (obj_trail (createObject ''a'' 0 5 5 0 0)) \<le> 50"
proof -
  let ?s = "handleCanvasMouseUp ''a'' 0 (handleCanvasMouseDown (Some demoCanvas) 5 5 initialState)"
  let ?es = "replicate 51 (Some demoCanvas, 0 :: real, False)"
  from C6_trail_bounded [where s = ?s and rid = "''a''" and ci = 0 and x = 100 and y = 300
      and vx = 1 and vy = 0 and es = ?es]
  have "length (obj_trail (run ?es (createObject ''a'' 0 100 300 1 0))) = min (length ?es) 50"
    unfolding Let_def by blast
  then have a: "length (obj_trail (run ?es (createObject ''a'' 0 100 300 1 0))) = 50"
    by simp
  from C6_trail_bounded [where s = ?s and es = "[]"] reachable_demo
  have "\<forall>obj \<in> set (objects ?s). length (obj_trail obj) \<le> 50"
    by blast
  then have "length (obj_trail (createObject ''a'' 0 5 5 0 0)) \<le> 50"
    by (simp add: demo_objects)
  with a show ?thesis by blast
qed

text \<open>
  C7. Releasing the pointer during a gesture appends exactly one object,
  placed at the start point, with velocity 0.2 times the drag vector and an
  empty trail; the gesture is cleared, the score grows by
  \<open>\<bar>vx\<bar> + \<bar>vy\<bar>\<close> and the other fields are kept. A drag of (100, 0)
  gives velocity (20, 0), and ten steps with friction 0, gravity off and no
  wall contact leave the velocity at (20, 0) and move the object by
  (200, 0).
\<close>

theorem C7_launch:
  "isLaunching s \<and> launchStart s = Some start \<and> currentMouse s = Some mouse \<longrightarrow>
    (let vx = (pt_x mouse - pt_x start) * 0.2;
         vy = (pt_y mouse - pt_y start) * 0.2;
         newObject = createObject rid ci (pt_x start) (pt_y start) vx vy;
         s' = handleCanvasMouseUp rid ci s
     in objects s' = objects s @ [newObject] \<and>
        length (objects s') = length (objects s) + 1 \<and>
        obj_x newObject = pt_x start \<and> obj_y newObject = pt_y start \<and>
        obj_vx newObject = vx \<and> obj_vy newObject = vy \<and>
        obj_trail newObject = [] \<and>
        isLaunching s' = False \<and> launchStart s' = None \<and> currentMouse s' = None \<and>
        score s' = score s + \<bar>vx\<bar> + \<bar>vy\<bar> \<and>
        friction s' = friction s \<and> gravity s' = gravity s \<and>
        level s' = level s \<and> isPlaying s' = isPlaying s \<and>
        (pt_x mouse - pt_x start = 100 \<and> pt_y mouse - pt_y start = 0 \<longrightarrow>
           obj_vx newObject = 20 \<and> obj_vy newObject = 0 \<and>
           (freeFlight canvasRef 0 False 10 newObject \<longrightarrow>
              obj_vx (steps canvasRef 0 False 10 newObject) = 20 \<and>
              obj_vy (steps canvasRef 0 False 10 newObject) = 0 \<and>
              obj_x (steps canvasRef 0 False 10 newObject) = pt_x start + 200 \<and>
              obj_y (steps canvasRef 0 False 10 newObject) = pt_y start)))"
proof
  assume h: "isLaunching s \<and> launchStart s = Some start \<and> currentMouse s = Some mouse"
  let ?vx = "(pt_x mouse - pt_x start) * 0.2"
  let ?vy = "(pt_y mouse - pt_y start) * 0.2"
  let ?new = "createObject rid ci (pt_x start) (pt_y start) ?vx ?vy"
  from h have up: "handleCanvasMouseUp rid ci s =
      s\<lparr>objects := objects s @ [?new], isLaunching := False, launchStart := None,
        currentMouse := None, score := score s + \<bar>?vx\<bar> + \<bar>?vy\<bar>\<rparr>"
    by (simp add: handleCanvasMouseUp_def Let_def)
  have fly: "freeFlight canvasRef 0 False 10 ?new \<longrightarrow>
      obj_vx (steps canvasRef 0 False 10 ?new) = ?vx \<and>
      obj_vy (steps canvasRef 0 False 10 ?new) = ?vy \<and>
      obj_x (steps canvasRef 0 False 10 ?new) = pt_x start + 10 * ?vx \<and>
      obj_y (steps canvasRef 0 False 10 ?new) = pt_y start + 10 * ?vy"
    using flight_inertial [of 0 canvasRef 10 ?new] by (simp add: createObject_fields)
  show "let vx = ?vx; vy = ?vy; newObject = createObject rid ci (pt_x start) (pt_y start) vx vy;
         s' = handleCanvasMouseUp rid ci s
     in objects s' = objects s @ [newObject] \<and>
        length (objects s') = length (objects s) + 1 \<and>
        obj_x newObject = pt_x start \<and> obj_y newObject = pt_y start \<and>
        obj_vx newObject = vx \<and> obj_vy newObject = vy \<and>
        obj_trail newObject = [] \<and>
        isLaunching s' = False \<and> launchStart s' = None \<and> currentMouse s' = None \<and>
        score s' = score s + \<bar>vx\<bar> + \<bar>vy\<bar> \<and>
        friction s' = friction s \<and> gravity s' = gravity s \<and>
        level s' = level s \<and> isPlaying s' = isPlaying s \<and>
        (pt_x mouse - pt_x start = 100 \<and> pt_y mouse - pt_y start = 0 \<longrightarrow>
           obj_vx newObject = 20 \<and> obj_vy newObject = 0 \<and>
           (freeFlight canvasRef 0 False 10 newObject \<longrightarrow>
              obj_vx (steps canvasRef 0 False 10 newObject) = 20 \<and>
              obj_vy (steps canvasRef 0 False 10 newObject) = 0 \<and>
              obj_x (steps canvasRef 0 False 10 newObject) = pt_x start + 200 \<and>
              obj_y (steps canvasRef 0 False 10 newObject) = pt_y start))"
    unfolding Let_def up using fly
    by (auto simp: createObject_fields)
qed

theorem C7_launch_witness:
  "objects (handleCanvasMouseUp ''a'' 0 (handleCanvasMouseMove (Some demoCanvas) 500 300
      (handleCanvasMouseDown (Some demoCanvas) 400 300 initialState))) =
     [createObject ''a'' 0 400 300 20 0] \<and>
   score (handleCanvasMouseUp ''a'' 0 (handleCanvasMouseMove (Some demoCanvas) 500 300
      (handleCanvasMouseDown (Some demoCanvas) 400 300 initialState))) = 20 \<and>
   freeFlight (Some demoCanvas) 0 False 10 (createObject ''a'' 0 400 300 20 0) \<and>
   obj_vx (steps (Some demoCanvas) 0 False 10 (createObject ''a'' 0 400 300 20 0)) = 20 \<and>
   obj_x (steps (Some demoCanvas) 0 False 10 (createObject ''a'' 0 400 300 20 0)) = 600"
proof -
  let ?s = "handleCanvasMouseMove (Some demoCanvas) 500 300
      (handleCanvasMouseDown (Some demoCanvas) 400 300 initialState)"
  have free: "freeFlight (Some demoCanvas) 0 False 10 (createObject ''a'' 0 400 300 20 0)"
    by code_simp
  from C7_launch [where s = ?s and start = "\<lparr>pt_x = 400, pt_y = 300\<rparr>"
      and mouse = "\<lparr>pt_x = 500, pt_y = 300\<rparr>" and rid = "''a''" and ci = 0
      and canvasRef = "Some demoCanvas"] free
  show ?thesis
    by (simp add: gesture_demo Let_def)
qed

text \<open>
  C8. \<open>nextLevel\<close> sets the level to \<open>min (level + 1) 3\<close>, empties the
  objects and takes friction and gravity from the preset of the new level,
  all in one update of the state. The preset at index 3 is (0.03, True), so
  three advances from level 0 end at level 3 with no objects and those
  parameters, and advancing at level 3 stays at level 3.
\<close>

theorem C8_next_level:
  "nextLevel s =
     s\<lparr>level := min (level s + 1) 3,
       friction := lv_friction (LEVELS ! min (level s + 1) 3),
       gravity := lv_gravity (LEVELS ! min (level s + 1) 3),
       objects := []\<rparr> \<and>
   level (nextLevel s) = min (level s + 1) 3 \<and>
   objects (nextLevel s) = [] \<and>
   length LEVELS = 4 \<and>
   lv_friction (LEVELS ! 3) = 0.03 \<and> lv_gravity (LEVELS ! 3) = True \<and>
   (level s = 3 \<longrightarrow> level (nextLevel s) = 3) \<and>
   (2 \<le> level s \<longrightarrow>
      level (nextLevel s) = 3 \<and> friction (nextLevel s) = 0.03 \<and> gravity (nextLevel s) = True) \<and>
   (level s = 0 \<longrightarrow>
      level (nextLevel (nextLevel (nextLevel s))) = 3 \<and>
      objects (nextLevel (nextLevel (nextLevel s))) = [] \<and>
      friction (nextLevel (nextLevel (nextLevel s))) = 0.03 \<and>
      gravity (nextLevel (nextLevel (nextLevel s))) = True)"
  by (simp add: nextLevel_def LEVELS_def Let_def min_def)

theorem C8_next_level_witness:
  "level (nextLevel (nextLevel (nextLevel initialState))) = 3 \<and>
   objects (nextLevel (nextLevel (nextLevel initialState))) = [] \<and>
   friction (nextLevel (nextLevel (nextLevel initialState))) = 0.03 \<and>
   gravity (nextLevel (nextLevel (nextLevel initialState))) = True"
proof -
  have "level initialState = 0" by (simp add: initialState_def)
  with C8_next_level [of initialState] show ?thesis by blast
qed

text \<open>
  C9. A release while no gesture is in progress (not launching, or no start
  point, or no current pointer) returns the state as it was: no object, no
  change of score.
\<close>

theorem C9_release_without_gesture:
  "\<not> isLaunching s \<or> launchStart s = None \<or> currentMouse s = None \<Longrightarrow>
     handleCanvasMouseUp rid ci s = s"
  by (simp add: handleCanvasMouseUp_def)

theorem C9_release_without_gesture_witness:
  "handleCanvasMouseUp ''a'' 0 initialState = initialState \<and>
   objects (handleCanvasMouseUp ''a'' 0 initialState) = [] \<and>
   score (handleCanvasMouseUp ''a'' 0 initialState) = 0"
proof -
  have "\<not> isLaunching initialState \<or> launchStart initialState = None \<or>
      currentMouse initialState = None"
    by (simp add: initialState_def)
  from C9_release_without_gesture [OF this, of "''a''" 0] show ?thesis
    by (simp add: initialState_def)
qed

text \<open>
  C10. \<open>resetGame\<close> empties the objects and clears the gesture; friction,
  gravity, level, score and the playing flag are kept. On a state with no
  objects and no gesture it is the identity.
\<close>

theorem C10_reset_frame:
  "objects (resetGame s) = [] \<and>
   isLaunching (resetGame s) = False \<and>
   launchStart (resetGame s) = None \<and>
   currentMouse (resetGame s) = None \<and>
   friction (resetGame s) = friction s \<and>
   gravity (resetGame s) = gravity s \<and>
   level (resetGame s) = level s \<and>
   score (resetGame s) = score s \<and>
   isPlaying (resetGame s) = isPlaying s \<and>
   (objects s = [] \<and> \<not> isLaunching s \<and> launchStart s = None \<and> currentMouse s = None \<longrightarrow>
      resetGame s = s)"
  by (simp add: resetGame_def)

theorem C10_reset_frame_witness:
  "resetGame initialState = initialState \<and>
   resetGame (resetGame (handleCanvasMouseDown (Some demoCanvas) 5 5 initialState)) =
     resetGame (handleCanvasMouseDown (Some demoCanvas) 5 5 initialState)"
proof -
  have "objects initialState = [] \<and> \<not> isLaunching initialState \<and>
      launchStart initialState = None \<and> currentMouse initialState = None"
    by (simp add: initialState_def)
  moreover
  have "objects (resetGame (handleCanvasMouseDown (Some demoCanvas) 5 5 initialState)) = [] \<and>
      \<not> isLaunching (resetGame (handleCanvasMouseDown (Some demoCanvas) 5 5 initialState)) \<and>
      launchStart (resetGame (handleCanvasMouseDown (Some demoCanvas) 5 5 initialState)) = None \<and>
      currentMouse (resetGame (handleCanvasMouseDown (Some demoCanvas) 5 5 initialState)) = None"
    by (simp add: resetGame_def)
  ultimately show ?thesis
    using C10_reset_frame [of initialState]
      C10_reset_frame [of "resetGame (handleCanvasMouseDown (Some demoCanvas) 5 5 initialState)"]
    by blast
qed

end
